theory Spec2Isabelle
  imports Main "HOL-Library.AList"
begin

section \<open>Python values used by the HTTP backend\<close>

text \<open>
  The backend of \<^verbatim>\<open>backends/http.py\<close> talks JSON with the imaging daemon. A decoded
  JSON document is a value of \<open>json\<close>: \<open>JNull\<close> is Python's \<^verbatim>\<open>None\<close>, a \<open>JDict\<close>
  lists the items of the dictionary in insertion order, each key once. JSON numbers
  with a fraction or an exponent (Python floats) are left out of the model.
\<close>

type_synonym bytes = string

datatype json =
    JNull
  | JBool bool
  | JInt int
  | JStr string
  | JList "json list"
  | JDict "(string \<times> json) list"

text \<open>
  A message built with \<^verbatim>\<open>str.format\<close> is kept as the template with its arguments,
  in the order they are passed.
\<close>

datatype arg = AInt int | AStr string | ABytes bytes | AJson json

datatype message = Text string "arg list"

text \<open>
  The exceptions the module can raise. \<open>RuntimeError\<close> is what the module raises for
  every unexpected answer of the server (the generic wire error). \<open>HTTPException\<close>
  stands for the failure of \<^verbatim>\<open>getresponse()\<close> when the server sends nothing.
\<close>

datatype exn =
    RuntimeError message
  | UnsupportedOperation message
      \<comment> \<open>Modelled from the spec: the module \<^verbatim>\<open>errors\<close> is not among the sources. The spec
          (section 7) has UnsupportedOperation distinguishable from the generic
          protocol error, so it is an exception class of its own.\<close>
  | ValueError
  | TypeError
  | AttributeError
  | KeyError string
  | IndexError
  | HTTPException

text \<open>Truth value of a Python object, as \<^verbatim>\<open>if x\<close> and \<^verbatim>\<open>not x\<close> take it.\<close>

fun truthy :: "json \<Rightarrow> bool" where
  "truthy JNull = False"
| "truthy (JBool b) = b"
| "truthy (JInt i) = (i \<noteq> 0)"
| "truthy (JStr s) = (s \<noteq> [])"
| "truthy (JList xs) = (xs \<noteq> [])"
| "truthy (JDict kvs) = (kvs \<noteq> [])"

text \<open>The integer a Python object counts as in arithmetic (\<^verbatim>\<open>bool\<close> is an \<^verbatim>\<open>int\<close>).\<close>

fun as_int :: "json \<Rightarrow> int option" where
  "as_int (JInt i) = Some i"
| "as_int (JBool b) = Some (if b then 1 else 0)"
| "as_int _ = None"

text \<open>\<^verbatim>\<open>a + b\<close> on decoded JSON values.\<close>

fun py_add :: "json \<Rightarrow> json \<Rightarrow> exn + json" where
  "py_add (JStr s) (JStr t) = Inr (JStr (s @ t))"
| "py_add (JList xs) (JList ys) = Inr (JList (xs @ ys))"
| "py_add a b =
     (case (as_int a, as_int b) of
        (Some i, Some j) \<Rightarrow> Inr (JInt (i + j))
      | _ \<Rightarrow> Inl TypeError)"

text \<open>\<^verbatim>\<open>a + n\<close> where \<open>n\<close> is an \<^verbatim>\<open>int\<close>.\<close>

definition py_add_int :: "json \<Rightarrow> int \<Rightarrow> exn + int" where
  "py_add_int a n = (case as_int a of Some i \<Rightarrow> Inr (i + n) | None \<Rightarrow> Inl TypeError)"

text \<open>\<^verbatim>\<open>for x in v\<close>: the items a decoded JSON value iterates over.\<close>

fun py_iter :: "json \<Rightarrow> exn + json list" where
  "py_iter (JList xs) = Inr xs"
| "py_iter (JDict kvs) = Inr (map (\<lambda>kv. JStr (fst kv)) kvs)"
| "py_iter (JStr s) = Inr (map (\<lambda>c. JStr [c]) s)"
| "py_iter _ = Inl TypeError"

text \<open>\<^verbatim>\<open>v[key]\<close> with a string key.\<close>

fun py_getitem :: "json \<Rightarrow> string \<Rightarrow> exn + json" where
  "py_getitem (JDict kvs) k =
     (case map_of kvs k of None \<Rightarrow> Inl (KeyError k) | Some v \<Rightarrow> Inr v)"
| "py_getitem _ k = Inl TypeError"

section \<open>The connection\<close>

text \<open>
  \<^verbatim>\<open>self._con\<close> is an \<^verbatim>\<open>http.client\<close> connection. The model keeps what the backend
  sent, in order, and the responses the server is going to give, in order: any server
  behaviour towards a sequential client is some list of responses.
\<close>

datatype body = NoBody | Bytes bytes | JsonDumps json
  \<comment> \<open>\<open>JsonDumps v\<close> is \<^verbatim>\<open>json.dumps(v).encode("utf-8")\<close>\<close>

record request =
  http_method :: string
  path :: string
  headers :: "(string \<times> message) list"
  body :: body

text \<open>
  What \<^verbatim>\<open>int(res.getheader("content-length"))\<close> does on a response: \<^verbatim>\<open>TypeError\<close>
  when the header is absent, \<^verbatim>\<open>ValueError\<close> when it is no integer, its value otherwise.
\<close>

datatype content_length = Absent | NotInt | IsInt int

text \<open>
  A response delivers its body in chunks: one \<^verbatim>\<open>res.readinto\<close> call returns at most the
  rest of the first chunk, so a short read of the socket is a short chunk.
\<close>

record response =
  status :: int
  content_length :: content_length
  chunks :: "bytes list"

record connection =
  sent :: "request list"
  pending :: "response list"
  connected :: bool
  is_local :: "exn + bool"
    \<comment> \<open>what \<^verbatim>\<open>is_local()\<close> gives: it reconnects when the socket is gone, which can fail\<close>

definition OK :: int where "OK = 200"
definition NO_CONTENT :: int where "NO_CONTENT = 204"
definition PARTIAL_CONTENT :: int where "PARTIAL_CONTENT = 206"
definition NOT_FOUND :: int where "NOT_FOUND = 404"
definition METHOD_NOT_ALLOWED :: int where "METHOD_NOT_ALLOWED = 405"

definition con_request :: "connection \<Rightarrow> request \<Rightarrow> connection" where
  "con_request c r = c\<lparr>sent := sent c @ [r], connected := True\<rparr>"

definition con_send :: "connection \<Rightarrow> bytes \<Rightarrow> connection" where
  "con_send c data =
     (if sent c = [] then c
      else c\<lparr>sent := butlast (sent c) @ [(last (sent c))\<lparr>body := Bytes data\<rparr>]\<rparr>)"

definition con_getresponse :: "connection \<Rightarrow> (exn + response) \<times> connection" where
  "con_getresponse c =
     (case pending c of
        [] \<Rightarrow> (Inl HTTPException, c)
      | r # rs \<Rightarrow> (Inr r, c\<lparr>pending := rs\<rparr>))"

definition con_close :: "connection \<Rightarrow> connection" where
  "con_close c = c\<lparr>connected := False\<rparr>"

text \<open>\<^verbatim>\<open>res.read()\<close> and \<^verbatim>\<open>res.read(n)\<close>.\<close>

definition res_read :: "response \<Rightarrow> bytes" where
  "res_read res = concat (chunks res)"

definition res_read_n :: "response \<Rightarrow> nat \<Rightarrow> bytes" where
  "res_read_n res n = take n (concat (chunks res))"

text \<open>
  \<^verbatim>\<open>res.readinto(view)\<close> with room for \<open>room\<close> bytes: the bytes read and the chunks left.
  No chunk left, or an empty chunk, reads nothing (end of data).
\<close>

fun res_readinto :: "bytes list \<Rightarrow> nat \<Rightarrow> bytes \<times> bytes list" where
  "res_readinto [] room = ([], [])"
| "res_readinto (c # cs) room =
     (take room c, if drop room c = [] then cs else drop room c # cs)"

section \<open>The backend\<close>

text \<open>
  Extents. \<open>ZeroExt start length zero hole\<close> and \<open>DirtyExt start length dirty\<close>; the
  fields hold what the server sent, undecoded.
\<close>

datatype extent =
    ZeroExt json json json bool
  | DirtyExt json json json

text \<open>
  Modelled from the spec: the module \<^verbatim>\<open>image\<close> with the classes \<^verbatim>\<open>ZeroExtent\<close> and
  \<^verbatim>\<open>DirtyExtent\<close> is not among the sources. The backend builds both from three
  arguments (start, length, flag). The spec (section 3) gives a zero extent a second
  flag, \<open>hole\<close>, which the backend never passes; the spec (section 4.3) has an extent
  built this way non-hole, so the flag is unset.
\<close>

definition ZeroExtent :: "json \<Rightarrow> json \<Rightarrow> json \<Rightarrow> extent" where
  "ZeroExtent s l z = ZeroExt s l z False"

definition DirtyExtent :: "json \<Rightarrow> json \<Rightarrow> json \<Rightarrow> extent" where
  "DirtyExtent s l d = DirtyExt s l d"

fun ext_start :: "extent \<Rightarrow> json" where
  "ext_start (ZeroExt s l z h) = s"
| "ext_start (DirtyExt s l d) = s"

fun ext_length :: "extent \<Rightarrow> json" where
  "ext_length (ZeroExt s l z h) = l"
| "ext_length (DirtyExt s l d) = l"

record backend =
  url_path :: string
  position :: int
  size_field :: "json option"
  extents_field :: "string \<rightharpoonup> extent list"
  can_extents :: json
  can_zero :: json
  can_flush :: json
  con :: connection

text \<open>
  A call returns its result, or the exception it raised, with the backend as the
  call left it: what was sent before a \<^verbatim>\<open>raise\<close> stays sent.
\<close>

type_synonym 'a outcome = "(exn + 'a) \<times> backend"

subsection \<open>Reading\<close>

definition p_get :: "backend \<Rightarrow> int \<Rightarrow> response outcome" where
  "p_get b len =
     (let hs = [(''range'', Text ''bytes={}-{}'' [AInt (position b), AInt (position b + len - 1)])];
          c1 = con_request (con b)
                 \<lparr>http_method = ''GET'', path = url_path b, headers = hs, body = NoBody\<rparr>
      in case con_getresponse c1 of
           (Inl e, c2) \<Rightarrow> (Inl e, b\<lparr>con := c2\<rparr>)
         | (Inr res, c2) \<Rightarrow>
             if status res \<noteq> PARTIAL_CONTENT then
               (Inl (RuntimeError (Text ''Error GET offset={} length={}: {}''
                       [AInt (position b), AInt len, ABytes (res_read_n res 512)])),
                b\<lparr>con := c2\<rparr>)
             else
               (case content_length res of
                  Absent \<Rightarrow> (Inl TypeError, b\<lparr>con := c2\<rparr>)
                | NotInt \<Rightarrow> (Inl ValueError, b\<lparr>con := c2\<rparr>)
                | IsInt n \<Rightarrow>
                    if n \<noteq> len then
                      (Inl (RuntimeError (Text ''Unexpected content_length={} expected={}''
                              [AInt n, AInt len])),
                       b\<lparr>con := c2\<rparr>)
                    else (Inr res, b\<lparr>con := c2\<rparr>)))"

text \<open>
  \<^verbatim>\<open>_read_all\<close>: the loop over \<^verbatim>\<open>res.readinto(view[pos:])\<close>. \<open>len\<close> is \<^verbatim>\<open>len(view)\<close>, taken
  once before the loop. The buffer is returned as the loop left it, also when it raises.
\<close>

definition blit :: "bytes \<Rightarrow> nat \<Rightarrow> bytes \<Rightarrow> bytes" where
  "blit view pos data = take pos view @ data @ drop (pos + length data) view"

function read_all_loop :: "bytes list \<Rightarrow> bytes \<Rightarrow> nat \<Rightarrow> nat \<Rightarrow> (exn + unit) \<times> bytes" where
  "read_all_loop cs view len pos =
     (if pos < len then
        (case res_readinto cs (len - pos) of
           (data, cs') \<Rightarrow>
             if length data = 0 then
               (Inl (RuntimeError (Text ''Expected {} byes, got {} bytes''
                       [AInt (int len), AInt (int pos)])), view)
             else read_all_loop cs' (blit view pos data) len (pos + length data))
      else (Inr (), view))"
  by pat_completeness auto
termination
proof (relation "measure (\<lambda>(cs, view, len, pos). len - pos)")
  show "wf (measure (\<lambda>(cs, view, len, pos). len - pos))"
    by simp
next
  fix cs :: "bytes list" and view :: bytes and len pos :: nat and data cs'
  assume "pos < len" and "\<not> length (data :: bytes) = 0"
  then have "len - (pos + length data) < len - pos"
    by (cases data) auto
  then show "((cs', blit view pos data, len, pos + length data), cs, view, len, pos)
      \<in> measure (\<lambda>(cs, view, len, pos). len - pos)"
    by simp
qed

declare read_all_loop.simps [simp del]

definition p_read_all :: "response \<Rightarrow> bytes \<Rightarrow> (exn + unit) \<times> bytes" where
  "p_read_all res buf = read_all_loop (chunks res) buf (length buf) 0"

definition readinto :: "backend \<Rightarrow> bytes \<Rightarrow> int outcome \<times> bytes" where
  "readinto b buf =
     (let len = int (length buf) in
      case p_get b len of
        (Inl e, b1) \<Rightarrow> ((Inl e, b1), buf)
      | (Inr res, b1) \<Rightarrow>
          (case p_read_all res buf of
             (Inl e, buf') \<Rightarrow> ((Inl e, b1), buf')
           | (Inr u, buf') \<Rightarrow> ((Inr len, b1\<lparr>position := position b1 + len\<rparr>), buf')))"

subsection \<open>Writing, zeroing, flushing\<close>

text \<open>
  \<^verbatim>\<open>_put_header\<close>: \<^verbatim>\<open>putrequest\<close>, the three \<^verbatim>\<open>putheader\<close> calls and \<^verbatim>\<open>endheaders\<close> put one
  request on the wire; \<^verbatim>\<open>send\<close> then gives it its body.
\<close>

definition p_put_header :: "backend \<Rightarrow> int \<Rightarrow> backend" where
  "p_put_header b len =
     (let path0 = url_path b;
          path1 = (if truthy (can_flush b) then path0 @ ''?flush=n'' else path0)
      in b\<lparr>con := con_request (con b)
            \<lparr>http_method = ''PUT'', path = path1,
             headers =
               [(''content-length'', Text ''{}'' [AInt len]),
                (''content-type'', Text ''application/octet-stream'' []),
                (''content-range'', Text ''bytes {}-{}/*''
                   [AInt (position b), AInt (position b + len - 1)])],
             body = NoBody\<rparr>\<rparr>)"

definition write_m :: "backend \<Rightarrow> bytes \<Rightarrow> int outcome" where
  "write_m b buf =
     (let len = int (length buf);
          b1 = p_put_header b len;
          c2 = con_send (con b1) buf
      in case con_getresponse c2 of
           (Inl e, c3) \<Rightarrow> (Inl e, b1\<lparr>con := c3\<rparr>)
         | (Inr res, c3) \<Rightarrow>
             if status res \<noteq> OK then
               (Inl (RuntimeError (Text ''Error PUT offset={} length={}: {}''
                       [AInt (position b1), AInt len, ABytes (res_read_n res 512)])),
                b1\<lparr>con := c3\<rparr>)
             else (Inr len, b1\<lparr>con := c3, position := position b1 + len\<rparr>))"

definition p_patch :: "backend \<Rightarrow> json \<Rightarrow> unit outcome" where
  "p_patch b msg =
     (let c1 = con_request (con b)
                 \<lparr>http_method = ''PATCH'', path = url_path b,
                  headers = [(''content-type'', Text ''application/json'' [])],
                  body = JsonDumps msg\<rparr>
      in case con_getresponse c1 of
           (Inl e, c2) \<Rightarrow> (Inl e, b\<lparr>con := c2\<rparr>)
         | (Inr res, c2) \<Rightarrow>
             if status res \<noteq> OK then
               (Inl (RuntimeError (Text ''Error PATCH msg={}: {}''
                       [AJson msg, ABytes (res_read_n res 512)])),
                b\<lparr>con := c2\<rparr>)
             else (Inr (), b\<lparr>con := c2\<rparr>))"

definition zero_msg :: "backend \<Rightarrow> int \<Rightarrow> json" where
  "zero_msg b len =
     JDict [(''op'', JStr ''zero''),
            (''offset'', JInt (position b)),
            (''size'', JInt len),
            (''flush'', JBool (\<not> truthy (can_flush b)))]"

definition zero_m :: "backend \<Rightarrow> int \<Rightarrow> int outcome" where
  "zero_m b len =
     (case p_patch b (zero_msg b len) of
        (Inl e, b1) \<Rightarrow> (Inl e, b1)
      | (Inr u, b1) \<Rightarrow> (Inr len, b1\<lparr>position := position b1 + len\<rparr>))"

definition flush :: "backend \<Rightarrow> unit outcome" where
  "flush b = p_patch b (JDict [(''op'', JStr ''flush'')])"

subsection \<open>Capabilities\<close>

text \<open>
  \<^verbatim>\<open>json.loads(body.decode("utf-8"))\<close> is a parameter \<open>loads\<close> of the model: \<open>None\<close> when it
  raises \<^verbatim>\<open>ValueError\<close> (undecodable bytes, or no JSON document).

  The \<^verbatim>\<open>options\<close> dictionary starts with the string keys of the decoded document;
  flattening the features can add keys of other types. The keys \<^verbatim>\<open>True\<close> and \<^verbatim>\<open>1\<close>
  (\<^verbatim>\<open>False\<close> and \<^verbatim>\<open>0\<close>) are kept apart here; the backend looks up string keys only.
\<close>

type_synonym loads = "bytes \<Rightarrow> json option"

type_synonym pydict = "(json \<times> json) list"

fun hashable :: "json \<Rightarrow> bool" where
  "hashable (JList xs) = False"
| "hashable (JDict kvs) = False"
| "hashable _ = True"

fun set_features :: "json list \<Rightarrow> pydict \<Rightarrow> exn + pydict" where
  "set_features [] d = Inr d"
| "set_features (f # fs) d =
     (if hashable f then set_features fs (AList.update f (JBool True) d)
      else Inl TypeError)"

definition dict_get :: "pydict \<Rightarrow> string \<Rightarrow> json \<Rightarrow> json" where
  "dict_get d k dflt = (case map_of d (JStr k) of Some v \<Rightarrow> v | None \<Rightarrow> dflt)"

text \<open>
  \<^verbatim>\<open>options.pop("features", [])\<close> followed by the loop over the features. Only a
  dictionary has a two-argument \<^verbatim>\<open>pop\<close>.
\<close>

fun flatten_features :: "json \<Rightarrow> exn + pydict" where
  "flatten_features (JDict kvs) =
     (let d = map (\<lambda>kv. (JStr (fst kv), snd kv)) kvs;
          features = dict_get d ''features'' (JList []);
          d1 = AList.delete (JStr ''features'') d
      in case py_iter features of
           Inl e \<Rightarrow> Inl e
         | Inr fs \<Rightarrow> set_features fs d1)"
| "flatten_features (JList xs) = Inl TypeError"
| "flatten_features _ = Inl AttributeError"

definition p_options :: "loads \<Rightarrow> backend \<Rightarrow> pydict outcome" where
  "p_options loads b =
     (let c1 = con_request (con b)
                 \<lparr>http_method = ''OPTIONS'', path = url_path b, headers = [], body = NoBody\<rparr>
      in case con_getresponse c1 of
           (Inl e, c2) \<Rightarrow> (Inl e, b\<lparr>con := c2\<rparr>)
         | (Inr res, c2) \<Rightarrow>
             (let data = res_read res; b1 = b\<lparr>con := c2\<rparr> in
              if status res = METHOD_NOT_ALLOWED then (Inr [], b1)
              else if status res = NO_CONTENT then (Inr [], b1)
              else if status res \<noteq> OK then
                (Inl (RuntimeError (Text ''Error OPTIONS: {}'' [ABytes data])), b1)
              else
                (case loads data of
                   None \<Rightarrow> (Inr [], b1)
                 | Some v \<Rightarrow>
                     (case flatten_features v of
                        Inl e \<Rightarrow> (Inl e, b1)
                      | Inr d \<Rightarrow> (Inr d, b1)))))"

text \<open>
  \<^verbatim>\<open>_optimize_connection\<close>. \<open>unix_connect\<close> is the attempt to connect to the Unix socket:
  \<open>None\<close> when it raises, which the backend swallows.
\<close>

definition p_optimize_connection ::
  "(json \<Rightarrow> connection option) \<Rightarrow> backend \<Rightarrow> json \<Rightarrow> unit outcome" where
  "p_optimize_connection unix_connect b unix_socket =
     (case is_local (con b) of
        Inl e \<Rightarrow> (Inl e, b)
      | Inr loc \<Rightarrow>
          (let b1 = b\<lparr>con := (con b)\<lparr>connected := True\<rparr>\<rparr> in
           if \<not> (loc \<and> truthy unix_socket) then (Inr (), b1)
           else
             (case unix_connect unix_socket of
                None \<Rightarrow> (Inr (), b1)
              | Some c \<Rightarrow> (Inr (), b1\<lparr>con := c\<rparr>))))"

text \<open>
  \<^verbatim>\<open>Backend.__init__\<close>. The capability fields do not exist before the probe; they are
  \<open>JNull\<close> in the state the probe runs in. When the constructor raises no backend
  exists.
\<close>

definition Backend_init ::
  "loads \<Rightarrow> (json \<Rightarrow> connection option) \<Rightarrow> string \<Rightarrow> connection \<Rightarrow> exn + backend" where
  "Backend_init loads unix_connect url c0 =
     (let b0 = \<lparr>url_path = url, position = 0, size_field = None,
                extents_field = Map.empty,
                can_extents = JNull, can_zero = JNull, can_flush = JNull, con = c0\<rparr>
      in case p_options loads b0 of
           (Inl e, b1) \<Rightarrow> Inl e
         | (Inr options, b1) \<Rightarrow>
             (let b2 = b1\<lparr>can_extents := dict_get options ''extents'' (JBool False),
                          can_zero := dict_get options ''zero'' (JBool False),
                          can_flush := dict_get options ''flush'' (JBool False)\<rparr>
              in case p_optimize_connection unix_connect b2
                        (dict_get options ''unix_socket'' JNull) of
                   (Inl e, b3) \<Rightarrow> Inl e
                 | (Inr u, b3) \<Rightarrow> Inr b3))"

subsection \<open>Extents and size\<close>

text \<open>The loop of \<^verbatim>\<open>_get_extents\<close>, run to its end as \<^verbatim>\<open>list(...)\<close> does.\<close>

fun decode_extents :: "string \<Rightarrow> json list \<Rightarrow> exn + extent list" where
  "decode_extents context [] = Inr []"
| "decode_extents context (ext # exts) =
     (case py_getitem ext ''start'' of
        Inl e \<Rightarrow> Inl e
      | Inr s \<Rightarrow>
          (case py_getitem ext ''length'' of
             Inl e \<Rightarrow> Inl e
           | Inr l \<Rightarrow>
               (case py_getitem ext context of
                  Inl e \<Rightarrow> Inl e
                | Inr f \<Rightarrow>
                    (case decode_extents context exts of
                       Inl e \<Rightarrow> Inl e
                     | Inr xs \<Rightarrow>
                         Inr ((if context = ''zero'' then ZeroExtent s l f
                               else DirtyExtent s l f) # xs)))))"

definition extents_request :: "backend \<Rightarrow> string \<Rightarrow> request" where
  "extents_request b context =
     \<lparr>http_method = ''GET'', path = url_path b @ ''/extents?context='' @ context,
      headers = [], body = NoBody\<rparr>"

definition p_get_extents :: "loads \<Rightarrow> backend \<Rightarrow> string \<Rightarrow> (extent list) outcome" where
  "p_get_extents loads b context =
     (let c1 = con_request (con b) (extents_request b context)
      in case con_getresponse c1 of
           (Inl e, c2) \<Rightarrow> (Inl e, b\<lparr>con := c2\<rparr>)
         | (Inr res, c2) \<Rightarrow>
             (let data = res_read res; b1 = b\<lparr>con := c2\<rparr> in
              if status res = NOT_FOUND then
                (Inl (UnsupportedOperation (Text ''Server does not support {} extents: {}''
                        [AStr context, ABytes (take 512 data)])), b1)
              else if status res \<noteq> OK then
                (Inl (RuntimeError (Text ''Error EXTENTS: {}'' [ABytes (take 512 data)])), b1)
              else
                (case loads data of
                   None \<Rightarrow> (Inl ValueError, b1)
                 | Some v \<Rightarrow>
                     (case py_iter v of
                        Inl e \<Rightarrow> (Inl e, b1)
                      | Inr exts \<Rightarrow>
                          (case decode_extents context exts of
                             Inl e \<Rightarrow> (Inl e, b1)
                           | Inr xs \<Rightarrow> (Inr xs, b1))))))"

definition head_request :: "backend \<Rightarrow> request" where
  "head_request b = \<lparr>http_method = ''GET'', path = url_path b, headers = [], body = NoBody\<rparr>"

definition p_emulate_head :: "backend \<Rightarrow> int outcome" where
  "p_emulate_head b =
     (let c1 = con_request (con b) (head_request b)
      in case con_getresponse c1 of
           (Inl e, c2) \<Rightarrow> (Inl e, b\<lparr>con := c2\<rparr>)
         | (Inr res, c2) \<Rightarrow>
             if status res \<noteq> OK then
               (Inl (RuntimeError (Text ''Error GET: {}'' [ABytes (res_read_n res 512)])),
                b\<lparr>con := c2\<rparr>)
             else
               (case content_length res of
                  Absent \<Rightarrow> (Inl TypeError, b\<lparr>con := c2\<rparr>)
                | NotInt \<Rightarrow> (Inl ValueError, b\<lparr>con := c2\<rparr>)
                | IsInt n \<Rightarrow> (Inr n, b\<lparr>con := con_close c2\<rparr>)))"

text \<open>
  The last four lines of \<^verbatim>\<open>extents\<close>: what the generator does once the context is
  valid and the server has extents. The generator is consumed to its end; every
  \<^verbatim>\<open>raise\<close> of it comes before its first \<^verbatim>\<open>yield\<close>, so it gives all its extents or none.
\<close>

definition extents_cached :: "loads \<Rightarrow> backend \<Rightarrow> string \<Rightarrow> (extent list) outcome" where
  "extents_cached loads b context =
     (case extents_field b context of
        Some xs \<Rightarrow> (Inr xs, b)
      | None \<Rightarrow>
          (case p_get_extents loads b context of
             (Inl e, b1) \<Rightarrow> (Inl e, b1)
           | (Inr xs, b1) \<Rightarrow>
               (Inr xs, b1\<lparr>extents_field := (extents_field b1)(context \<mapsto> xs)\<rparr>)))"

text \<open>
  \<^verbatim>\<open>size\<close>. It calls \<^verbatim>\<open>self.extents()\<close> only when the server has extents, and with the
  valid context \<^verbatim>\<open>"zero"\<close>: the call is then \<open>extents_cached\<close> (lemma
  \<open>extents_supported\<close> below).
\<close>

definition size_m :: "loads \<Rightarrow> backend \<Rightarrow> json outcome" where
  "size_m loads b =
     (case size_field b of
        Some s \<Rightarrow> (Inr s, b)
      | None \<Rightarrow>
          if truthy (can_extents b) then
            (case extents_cached loads b ''zero'' of
               (Inl e, b1) \<Rightarrow> (Inl e, b1)
             | (Inr xs, b1) \<Rightarrow>
                 if xs = [] then (Inl IndexError, b1)
                 else
                   (case py_add (ext_start (last xs)) (ext_length (last xs)) of
                      Inl e \<Rightarrow> (Inl e, b1)
                    | Inr s \<Rightarrow> (Inr s, b1\<lparr>size_field := Some s\<rparr>)))
          else
            (case p_emulate_head b of
               (Inl e, b1) \<Rightarrow> (Inl e, b1)
             | (Inr n, b1) \<Rightarrow> (Inr (JInt n), b1\<lparr>size_field := Some (JInt n)\<rparr>)))"

definition extents :: "loads \<Rightarrow> backend \<Rightarrow> string \<Rightarrow> (extent list) outcome" where
  "extents loads b context =
     (if context \<notin> set [''zero'', ''dirty''] then
        (Inl (RuntimeError (Text ''Invalid context: {}'' [AStr context])), b)
      else if \<not> truthy (can_extents b) then
        (if context = ''zero'' then
           (case size_m loads b of
              (Inl e, b1) \<Rightarrow> (Inl e, b1)
            | (Inr s, b1) \<Rightarrow> (Inr [ZeroExtent (JInt 0) s (JBool False)], b1))
         else
           (Inl (UnsupportedOperation (Text ''Server does not support dirty extents'' [])), b))
      else extents_cached loads b context)"

subsection \<open>Position\<close>

definition SEEK_SET :: int where "SEEK_SET = 0"
definition SEEK_CUR :: int where "SEEK_CUR = 1"
definition SEEK_END :: int where "SEEK_END = 2"

definition tell :: "backend \<Rightarrow> int" where
  "tell b = position b"

definition seek :: "loads \<Rightarrow> backend \<Rightarrow> int \<Rightarrow> int \<Rightarrow> int outcome" where
  "seek loads b n how =
     (if how = SEEK_SET then (Inr n, b\<lparr>position := n\<rparr>)
      else if how = SEEK_CUR then (Inr (position b + n), b\<lparr>position := position b + n\<rparr>)
      else if how = SEEK_END then
        (case size_m loads b of
           (Inl e, b1) \<Rightarrow> (Inl e, b1)
         | (Inr s, b1) \<Rightarrow>
             (case py_add_int s n of
                Inl e \<Rightarrow> (Inl e, b1)
              | Inr p \<Rightarrow> (Inr p, b1\<lparr>position := p\<rparr>)))
      else (Inr (position b), b))"

definition close :: "backend \<Rightarrow> backend" where
  "close b = b\<lparr>con := con_close (con b)\<rparr>"

subsection \<open>Sequences of calls\<close>

text \<open>
  A caller drives one backend through any sequence of calls; \<open>step\<close> is the backend
  after one call, whether it returned or raised.
\<close>

datatype call =
    Readinto bytes
  | Write bytes
  | Zero int
  | Flush
  | Extents string
  | Tell
  | Seek int int
  | Size
  | Close

fun step :: "loads \<Rightarrow> backend \<Rightarrow> call \<Rightarrow> backend" where
  "step loads b (Readinto buf) = snd (fst (readinto b buf))"
| "step loads b (Write buf) = snd (write_m b buf)"
| "step loads b (Zero len) = snd (zero_m b len)"
| "step loads b Flush = snd (flush b)"
| "step loads b (Extents context) = snd (extents loads b context)"
| "step loads b Tell = b"
| "step loads b (Seek n how) = snd (seek loads b n how)"
| "step loads b Size = snd (size_m loads b)"
| "step loads b Close = close b"

definition run :: "loads \<Rightarrow> backend \<Rightarrow> call list \<Rightarrow> backend" where
  "run loads b cs = foldl (step loads) b cs"

subsection \<open>Example states\<close>

definition ex_con :: "response list \<Rightarrow> connection" where
  "ex_con rs = \<lparr>sent = [], pending = rs, connected = True, is_local = Inr False\<rparr>"

definition ex_backend :: "json \<Rightarrow> json \<Rightarrow> response list \<Rightarrow> backend" where
  "ex_backend ce cf rs =
     \<lparr>url_path = ''/images/ticket'', position = 0, size_field = None,
      extents_field = Map.empty, can_extents = ce, can_zero = JBool False,
      can_flush = cf, con = ex_con rs\<rparr>"

definition ex_response :: "int \<Rightarrow> content_length \<Rightarrow> bytes list \<Rightarrow> response" where
  "ex_response st cl cs = \<lparr>status = st, content_length = cl, chunks = cs\<rparr>"

definition is_unsupported :: "exn + 'a \<Rightarrow> bool" where
  "is_unsupported r = (case r of Inl (UnsupportedOperation m) \<Rightarrow> True | _ \<Rightarrow> False)"

text \<open>
  What \<^verbatim>\<open>json.loads\<close> gives on two documents, an empty array and a list of one zero
  extent; \<open>None\<close> elsewhere.
\<close>

definition ex_loads :: loads where
  "ex_loads data =
     (if data = ''[]'' then Some (JList [])
      else if data = ''[{\"start\": 0, \"length\": 4096, \"zero\": true}]'' then
        Some (JList [JDict [(''start'', JInt 0), (''length'', JInt 4096), (''zero'', JBool True)]])
      else None)"

definition ex_extents_response :: response where
  "ex_extents_response =
     ex_response 200 (IsInt 44) [''[{\"start\": 0, \"length\": 4096, \"zero\": true}]'']"

text \<open>The backend right after it opened against a server that answers OPTIONS with 405.\<close>

definition ex_opened :: backend where
  "ex_opened =
     (ex_backend (JBool False) (JBool False) [ex_response 200 Absent []])
       \<lparr>con := (ex_con [ex_response 200 Absent []])\<lparr>sent :=
          [\<lparr>http_method = ''OPTIONS'', path = ''/images/ticket'', headers = [],
            body = NoBody\<rparr>]\<rparr>\<rparr>"

subsection \<open>What a call leaves alone\<close>

text \<open>
  \<open>keeps b b'\<close>: \<open>b'\<close> has the resource path and the capabilities of \<open>b\<close>, every cached
  extent list of \<open>b\<close> and the size of \<open>b\<close> if \<open>b\<close> knows one.
\<close>

definition keeps :: "backend \<Rightarrow> backend \<Rightarrow> bool" where
  "keeps b b' \<longleftrightarrow>
     url_path b' = url_path b \<and> can_extents b' = can_extents b \<and>
     can_zero b' = can_zero b \<and> can_flush b' = can_flush b \<and>
     (\<forall>k xs. extents_field b k = Some xs \<longrightarrow> extents_field b' k = Some xs) \<and>
     (\<forall>s. size_field b = Some s \<longrightarrow> size_field b' = Some s)"

section \<open>Properties\<close>

lemma con_send_request:
  "con_send (con_request c r) data =
     c\<lparr>sent := sent c @ [r\<lparr>body := Bytes data\<rparr>], connected := True\<rparr>"
  by (simp add: con_send_def con_request_def)

subsection \<open>Reads\<close>

text \<open>
  Claim C1. When the server answers the ranged GET of \<open>readinto buf\<close> with status 206 and
  a content length other than \<open>length buf\<close>, the call raises \<open>RuntimeError\<close> (the
  module's generic wire error), the buffer is as it was, and so is the position: the
  one change to the backend is the request sent and the response taken.
\<close>

theorem readinto_content_length_mismatch:
  assumes "pending (con b) = res # rest"
    and "status res = PARTIAL_CONTENT"
    and "content_length res = IsInt n"
    and "n \<noteq> int (length buf)"
  shows "readinto b buf =
           ((Inl (RuntimeError (Text ''Unexpected content_length={} expected={}''
                    [AInt n, AInt (int (length buf))])),
             b\<lparr>con := (con b)\<lparr>sent := sent (con b) @
                     [\<lparr>http_method = ''GET'', path = url_path b,
                       headers = [(''range'', Text ''bytes={}-{}''
                          [AInt (position b), AInt (position b + int (length buf) - 1)])],
                       body = NoBody\<rparr>],
                   connected := True, pending := rest\<rparr>\<rparr>),
            buf)
         \<and> position (snd (fst (readinto b buf))) = position b
         \<and> snd (readinto b buf) = buf"
  using assms
  by (simp add: readinto_def p_get_def con_request_def con_getresponse_def Let_def)

theorem readinto_content_length_mismatch_witness:
  "readinto (ex_backend (JBool False) (JBool False) [ex_response 206 (IsInt 5) [''hello'']]) ''ab'' =
     ((Inl (RuntimeError (Text ''Unexpected content_length={} expected={}'' [AInt 5, AInt 2])),
       (ex_backend (JBool False) (JBool False) [])
         \<lparr>con := (ex_con [])\<lparr>sent :=
            [\<lparr>http_method = ''GET'', path = ''/images/ticket'',
              headers = [(''range'', Text ''bytes={}-{}'' [AInt 0, AInt 1])],
              body = NoBody\<rparr>]\<rparr>\<rparr>),
      ''ab'')"
  using readinto_content_length_mismatch
    [of "ex_backend (JBool False) (JBool False) [ex_response 206 (IsInt 5) [''hello'']]"
        "ex_response 206 (IsInt 5) [''hello'']" "[]" 5 "''ab''"]
  by (simp add: ex_backend_def ex_con_def ex_response_def PARTIAL_CONTENT_def)

subsection \<open>Writes\<close>

text \<open>
  Claim C2, amended. Every \<open>write_m b buf\<close> sends one PUT request, to the resource path
  with \<^verbatim>\<open>?flush=n\<close> appended exactly when \<open>can_flush\<close> is true, and to the bare resource
  path when it is false.
\<close>

theorem write_put_path:
  "sent (con (snd (write_m b buf))) =
     sent (con b) @
       [\<lparr>http_method = ''PUT'',
         path = url_path b @ (if truthy (can_flush b) then ''?flush=n'' else ''''),
         headers =
           [(''content-length'', Text ''{}'' [AInt (int (length buf))]),
            (''content-type'', Text ''application/octet-stream'' []),
            (''content-range'', Text ''bytes {}-{}/*''
               [AInt (position b), AInt (position b + int (length buf) - 1)])],
         body = Bytes buf\<rparr>]"
  by (simp add: write_m_def p_put_header_def con_send_request con_getresponse_def Let_def
      split: list.split)

theorem write_put_path_witness:
  "map path (sent (con (snd (write_m (ex_backend (JBool False) (JBool True)
      [ex_response 200 Absent []]) ''ab'')))) = [''/images/ticket?flush=n'']"
  using write_put_path
    [of "ex_backend (JBool False) (JBool True) [ex_response 200 Absent []]" "''ab''"]
  by (simp add: ex_backend_def ex_con_def)

text \<open>
  The claim as stated has it the other way round. With \<open>can_flush\<close> false the PUT goes
  to the bare path, with \<open>can_flush\<close> true to the path with the suffix.
\<close>

theorem write_put_path_counterexample:
  "\<not> truthy (can_flush (ex_backend (JBool False) (JBool False) [ex_response 200 Absent []]))
   \<and> fst (write_m (ex_backend (JBool False) (JBool False) [ex_response 200 Absent []]) ''ab'')
       = Inr 2
   \<and> map path (sent (con (snd (write_m (ex_backend (JBool False) (JBool False)
        [ex_response 200 Absent []]) ''ab'')))) = [''/images/ticket'']
   \<and> ''/images/ticket'' \<noteq> ''/images/ticket'' @ ''?flush=n''
   \<and> truthy (can_flush (ex_backend (JBool False) (JBool True) [ex_response 200 Absent []]))
   \<and> map path (sent (con (snd (write_m (ex_backend (JBool False) (JBool True)
        [ex_response 200 Absent []]) ''ab'')))) = [''/images/ticket?flush=n'']"
  by (simp add: write_m_def p_put_header_def con_send_request con_getresponse_def Let_def
      ex_backend_def ex_con_def ex_response_def OK_def)

subsection \<open>Zeroing\<close>

text \<open>
  Claim C9. Whatever the capability flags are, \<open>zero_m b len\<close> sends exactly one PATCH
  request to the resource path whose JSON body is
  \<^verbatim>\<open>{"op": "zero", "offset": position, "size": len, "flush": f}\<close> where \<open>f\<close> is true exactly
  when \<open>can_flush\<close> is false; when the server answers 200 the call returns \<open>len\<close> and
  the position has advanced by \<open>len\<close>, nothing else but the connection having changed.
\<close>

theorem zero_sends_patch:
  "(let req = \<lparr>http_method = ''PATCH'', path = url_path b,
                headers = [(''content-type'', Text ''application/json'' [])],
                body = JsonDumps (JDict [(''op'', JStr ''zero''),
                                         (''offset'', JInt (position b)),
                                         (''size'', JInt len),
                                         (''flush'', JBool (\<not> truthy (can_flush b)))])\<rparr>
    in sent (con (snd (zero_m b len))) = sent (con b) @ [req]
     \<and> (\<forall>res rest. pending (con b) = res # rest \<and> status res = 200 \<longrightarrow>
           zero_m b len =
             (Inr len,
              b\<lparr>con := (con b)\<lparr>sent := sent (con b) @ [req],
                                 connected := True, pending := rest\<rparr>,
                position := position b + len\<rparr>)))"
  by (auto simp add: zero_m_def zero_msg_def p_patch_def con_request_def con_getresponse_def
      Let_def OK_def split: list.split)

theorem zero_sends_patch_witness:
  "zero_m (ex_backend (JBool False) (JBool False) [ex_response 200 Absent []]) 7 =
     (Inr 7,
      (ex_backend (JBool False) (JBool False) [])
        \<lparr>con := (ex_con [])\<lparr>sent :=
           [\<lparr>http_method = ''PATCH'', path = ''/images/ticket'',
             headers = [(''content-type'', Text ''application/json'' [])],
             body = JsonDumps (JDict [(''op'', JStr ''zero''), (''offset'', JInt 0),
                                      (''size'', JInt 7), (''flush'', JBool True)])\<rparr>]\<rparr>,
          position := 7\<rparr>)"
proof -
  let ?b = "ex_backend (JBool False) (JBool False) [ex_response 200 Absent []]"
  have p: "pending (con ?b) = ex_response 200 Absent [] # []
           \<and> status (ex_response 200 Absent []) = 200"
    by (simp add: ex_backend_def ex_con_def ex_response_def)
  from zero_sends_patch [of ?b 7] p
  have "zero_m ?b 7 =
     (Inr 7,
      ?b\<lparr>con := (con ?b)\<lparr>sent := sent (con ?b) @
            [\<lparr>http_method = ''PATCH'', path = url_path ?b,
              headers = [(''content-type'', Text ''application/json'' [])],
              body = JsonDumps (JDict [(''op'', JStr ''zero''),
                                       (''offset'', JInt (position ?b)),
                                       (''size'', JInt 7),
                                       (''flush'', JBool (\<not> truthy (can_flush ?b)))])\<rparr>],
            connected := True, pending := []\<rparr>,
         position := position ?b + 7\<rparr>)"
    unfolding Let_def by blast
  then show ?thesis
    by (simp add: ex_backend_def ex_con_def)
qed

subsection \<open>Seeking with an unknown whence\<close>

text \<open>
  Claim C10. \<open>seek loads b n how\<close> with \<open>how\<close> none of \<open>SEEK_SET\<close>, \<open>SEEK_CUR\<close>,
  \<open>SEEK_END\<close> does not raise: it returns the position and leaves the backend as it was.
\<close>

theorem seek_unknown_whence:
  assumes "how \<noteq> SEEK_SET" and "how \<noteq> SEEK_CUR" and "how \<noteq> SEEK_END"
  shows "seek loads b n how = (Inr (position b), b)"
  using assms by (simp add: seek_def)

theorem seek_unknown_whence_witness:
  "seek (\<lambda>_. None) (ex_backend (JBool False) (JBool False) []) 10 7 =
     (Inr 0, ex_backend (JBool False) (JBool False) [])"
  using seek_unknown_whence
    [of 7 "\<lambda>_. None" "ex_backend (JBool False) (JBool False) []" 10]
  by (simp add: SEEK_SET_def SEEK_CUR_def SEEK_END_def ex_backend_def)

subsection \<open>Extents without the capability\<close>

lemma p_emulate_head_sent:
  "sent (con (snd (p_emulate_head b))) = sent (con b) @ [head_request b]"
  by (simp add: p_emulate_head_def con_request_def con_getresponse_def con_close_def Let_def
      split: list.split content_length.split)

lemma size_m_emulated_sent:
  assumes "\<not> truthy (can_extents b)"
  shows "sent (con (snd (size_m loads b))) =
           sent (con b) @ (if size_field b = None then [head_request b] else [])"
proof (cases "size_field b")
  case None
  obtain r b1 where e: "p_emulate_head b = (r, b1)"
    by (cases "p_emulate_head b")
  then have "sent (con b1) = sent (con b) @ [head_request b]"
    using p_emulate_head_sent [of b] by simp
  with None assms e show ?thesis
    by (cases r) (simp_all add: size_m_def)
next
  case (Some s)
  then show ?thesis by (simp add: size_m_def)
qed

lemma size_m_stored:
  assumes "size_m loads b = (Inr s, b')"
  shows "size_field b' = Some s"
proof (cases "size_field b")
  case (Some t)
  with assms show ?thesis by (simp add: size_m_def)
next
  case None
  show ?thesis
  proof (cases "truthy (can_extents b)")
    case True
    obtain r b1 where e: "extents_cached loads b ''zero'' = (r, b1)"
      by (cases "extents_cached loads b ''zero''")
    with assms None True show ?thesis
      by (cases r) (auto simp add: size_m_def split: if_splits sum.splits)
  next
    case False
    obtain r b1 where e: "p_emulate_head b = (r, b1)"
      by (cases "p_emulate_head b")
    with assms None False show ?thesis
      by (cases r) (auto simp add: size_m_def)
  qed
qed

lemma size_m_again:
  assumes "size_m loads b = (Inr s, b')"
  shows "size_m loads b' = (Inr s, b')"
  using size_m_stored [OF assms] by (simp add: size_m_def)

text \<open>
  Claim C4. Without extent support, \<open>extents loads b ''zero''\<close> gives exactly one extent,
  from 0 and as long as \<open>size_m\<close> says, neither zero nor hole, whenever \<open>size_m\<close>
  returns, and raises what \<open>size_m\<close> raises otherwise. The size it reports is the size
  a later call reports. It sends no extents query: the one request it can send is the
  GET on the resource path by which \<open>size_m\<close> learns a size not yet known.
\<close>

theorem extents_zero_emulated:
  assumes "\<not> truthy (can_extents b)"
  shows "(\<forall>s b'. size_m loads b = (Inr s, b') \<longrightarrow>
            extents loads b ''zero'' = (Inr [ZeroExt (JInt 0) s (JBool False) False], b')
          \<and> size_m loads b' = (Inr s, b'))
       \<and> (\<forall>e b'. size_m loads b = (Inl e, b') \<longrightarrow> extents loads b ''zero'' = (Inl e, b'))
       \<and> sent (con (snd (extents loads b ''zero''))) =
           sent (con b) @ (if size_field b = None then [head_request b] else [])"
proof (intro conjI allI impI)
  fix s b' assume "size_m loads b = (Inr s, b')"
  with assms show "extents loads b ''zero'' = (Inr [ZeroExt (JInt 0) s (JBool False) False], b')"
    by (simp add: extents_def ZeroExtent_def)
next
  fix s b' assume "size_m loads b = (Inr s, b')"
  then show "size_m loads b' = (Inr s, b')" by (rule size_m_again)
next
  fix e b' assume "size_m loads b = (Inl e, b')"
  with assms show "extents loads b ''zero'' = (Inl e, b')"
    by (simp add: extents_def)
next
  obtain r b1 where e: "size_m loads b = (r, b1)"
    by (cases "size_m loads b")
  with assms have "snd (extents loads b ''zero'') = b1"
    by (cases r) (simp_all add: extents_def)
  with e size_m_emulated_sent [OF assms, of loads]
  show "sent (con (snd (extents loads b ''zero''))) =
           sent (con b) @ (if size_field b = None then [head_request b] else [])"
    by simp
qed

theorem extents_zero_emulated_witness:
  "extents (\<lambda>_. None) (ex_backend (JBool False) (JBool False) [ex_response 200 (IsInt 4096) []])
     ''zero'' =
   (Inr [ZeroExt (JInt 0) (JInt 4096) (JBool False) False],
    (ex_backend (JBool False) (JBool False) [])
      \<lparr>size_field := Some (JInt 4096),
        con := (ex_con [])\<lparr>sent :=
          [\<lparr>http_method = ''GET'', path = ''/images/ticket'', headers = [], body = NoBody\<rparr>],
          connected := False\<rparr>\<rparr>)"
proof -
  let ?b = "ex_backend (JBool False) (JBool False) [ex_response 200 (IsInt 4096) []]"
  let ?b' = "(ex_backend (JBool False) (JBool False) [])
      \<lparr>size_field := Some (JInt 4096),
        con := (ex_con [])\<lparr>sent :=
          [\<lparr>http_method = ''GET'', path = ''/images/ticket'', headers = [], body = NoBody\<rparr>],
          connected := False\<rparr>\<rparr>"
  have c: "\<not> truthy (can_extents ?b)"
    by (simp add: ex_backend_def)
  have s: "size_m (\<lambda>_. None) ?b = (Inr (JInt 4096), ?b')"
    by (simp add: size_m_def p_emulate_head_def head_request_def con_request_def
        con_getresponse_def con_close_def ex_backend_def ex_con_def ex_response_def OK_def)
  from extents_zero_emulated [OF c, of "\<lambda>_. None"] s show ?thesis
    by blast
qed

text \<open>
  Claim C5. Without extent support, \<open>extents loads b ''dirty''\<close> raises
  \<open>UnsupportedOperation\<close>; it gives no extent and leaves the backend as it was.
\<close>

theorem extents_dirty_unsupported:
  assumes "\<not> truthy (can_extents b)"
  shows "extents loads b ''dirty'' =
           (Inl (UnsupportedOperation (Text ''Server does not support dirty extents'' [])), b)"
  using assms by (simp add: extents_def)

theorem extents_dirty_unsupported_witness:
  "extents (\<lambda>_. None) (ex_backend (JBool False) (JBool False) []) ''dirty'' =
     (Inl (UnsupportedOperation (Text ''Server does not support dirty extents'' [])),
      ex_backend (JBool False) (JBool False) [])"
  using extents_dirty_unsupported
    [of "ex_backend (JBool False) (JBool False) []" "\<lambda>_. None"]
  by (simp add: ex_backend_def)

subsection \<open>Extents of an unknown context\<close>

text \<open>
  Claim C7, amended. For a context other than \<^verbatim>\<open>"zero"\<close> and \<^verbatim>\<open>"dirty"\<close>, \<open>extents\<close> raises
  \<open>RuntimeError\<close>, the error the module raises for wire errors too, and leaves the
  backend as it was: nothing is sent.
\<close>

theorem extents_invalid_context:
  assumes "context \<noteq> ''zero''" and "context \<noteq> ''dirty''"
  shows "extents loads b context =
           (Inl (RuntimeError (Text ''Invalid context: {}'' [AStr context])), b)"
  using assms by (simp add: extents_def)

theorem extents_invalid_context_witness:
  "extents (\<lambda>_. None) (ex_backend (JBool True) (JBool False) []) ''data'' =
     (Inl (RuntimeError (Text ''Invalid context: {}'' [AStr ''data''])),
      ex_backend (JBool True) (JBool False) [])"
  using extents_invalid_context
    [of "''data''" "\<lambda>_. None" "ex_backend (JBool True) (JBool False) []"]
  by simp

text \<open>
  The claim as stated has the error an \<open>UnsupportedOperation\<close>; it is not.
\<close>

theorem extents_invalid_context_counterexample:
  "fst (extents (\<lambda>_. None) (ex_backend (JBool True) (JBool False) []) ''data'') =
     Inl (RuntimeError (Text ''Invalid context: {}'' [AStr ''data'']))
   \<and> \<not> is_unsupported
         (fst (extents (\<lambda>_. None) (ex_backend (JBool True) (JBool False) []) ''data''))"
  by (simp add: extents_def is_unsupported_def)

subsection \<open>The capability probe\<close>

text \<open>
  An answer 405 or 204, and an answer 200 whose body \<^verbatim>\<open>json.loads\<close> rejects, give the
  empty options, and the backend opens with no capability.
\<close>

lemma p_options_old_server:
  assumes "pending (con b) = res # rest"
    and "status res = METHOD_NOT_ALLOWED \<or> status res = NO_CONTENT"
  shows "p_options loads b =
           (Inr [], b\<lparr>con := (con b)\<lparr>sent := sent (con b) @
                 [\<lparr>http_method = ''OPTIONS'', path = url_path b, headers = [], body = NoBody\<rparr>],
               connected := True, pending := rest\<rparr>\<rparr>)"
  using assms
  by (auto simp add: p_options_def con_request_def con_getresponse_def Let_def)

lemma p_options_undecodable:
  assumes "pending (con b) = res # rest"
    and "status res = OK"
    and "loads (res_read res) = None"
  shows "p_options loads b =
           (Inr [], b\<lparr>con := (con b)\<lparr>sent := sent (con b) @
                 [\<lparr>http_method = ''OPTIONS'', path = url_path b, headers = [], body = NoBody\<rparr>],
               connected := True, pending := rest\<rparr>\<rparr>)"
  using assms
  by (simp add: p_options_def con_request_def con_getresponse_def Let_def OK_def
      METHOD_NOT_ALLOWED_def NO_CONTENT_def)

lemma Backend_init_no_options:
  assumes "p_options loads
             \<lparr>url_path = url, position = 0, size_field = None, extents_field = Map.empty,
              can_extents = JNull, can_zero = JNull, can_flush = JNull, con = c0\<rparr> = (Inr [], b1)"
    and "is_local (con b1) = Inr loc"
  shows "Backend_init loads unix_connect url c0 =
           Inr (b1\<lparr>can_extents := JBool False, can_zero := JBool False,
                   can_flush := JBool False, con := (con b1)\<lparr>connected := True\<rparr>\<rparr>)"
  using assms
  by (simp add: Backend_init_def p_optimize_connection_def dict_get_def Let_def)

lemma Backend_init_old_server:
  assumes "pending c0 = res # rest"
    and "status res = METHOD_NOT_ALLOWED \<or> status res = NO_CONTENT
         \<or> status res = OK \<and> loads (res_read res) = None"
    and "is_local c0 = Inr loc"
  shows "Backend_init loads unix_connect url c0 =
           Inr \<lparr>url_path = url, position = 0, size_field = None, extents_field = Map.empty,
                can_extents = JBool False, can_zero = JBool False, can_flush = JBool False,
                con = c0\<lparr>sent := sent c0 @
                  [\<lparr>http_method = ''OPTIONS'', path = url, headers = [], body = NoBody\<rparr>],
                  connected := True, pending := rest\<rparr>\<rparr>"
proof -
  let ?b0 = "\<lparr>url_path = url, position = 0, size_field = None, extents_field = Map.empty,
              can_extents = JNull, can_zero = JNull, can_flush = JNull, con = c0\<rparr>"
  let ?b1 = "?b0\<lparr>con := (con ?b0)\<lparr>sent := sent (con ?b0) @
                 [\<lparr>http_method = ''OPTIONS'', path = url_path ?b0, headers = [], body = NoBody\<rparr>],
               connected := True, pending := rest\<rparr>\<rparr>"
  have p: "pending (con ?b0) = res # rest"
    using assms(1) by simp
  have "p_options loads ?b0 = (Inr [], ?b1)"
  proof (cases "status res = OK \<and> loads (res_read res) = None")
    case True
    then show ?thesis using p_options_undecodable [OF p, of loads] by blast
  next
    case False
    with assms(2) have "status res = METHOD_NOT_ALLOWED \<or> status res = NO_CONTENT" by blast
    then show ?thesis by (rule p_options_old_server [OF p])
  qed
  moreover have "is_local (con ?b1) = Inr loc"
    using assms(3) by simp
  ultimately show ?thesis
    using Backend_init_no_options [of loads url c0 ?b1 loc unix_connect] by simp
qed

text \<open>
  A body that \<^verbatim>\<open>json.loads\<close> accepts and that is no dictionary makes the probe raise:
  the \<^verbatim>\<open>try\<close> of \<^verbatim>\<open>_options\<close> ends before the features are read.
\<close>

lemma flatten_features_not_dict:
  assumes "\<forall>kvs. v \<noteq> JDict kvs"
  shows "flatten_features v = Inl TypeError \<or> flatten_features v = Inl AttributeError"
  using assms by (cases v) simp_all

lemma p_options_not_dict:
  assumes "pending (con b) = res # rest"
    and "status res = OK"
    and "loads (res_read res) = Some v"
    and "\<forall>kvs. v \<noteq> JDict kvs"
  shows "fst (p_options loads b) = Inl TypeError \<or> fst (p_options loads b) = Inl AttributeError"
proof -
  have "fst (p_options loads b) =
          (case flatten_features v of Inl e \<Rightarrow> Inl e | Inr d \<Rightarrow> Inr d)"
    using assms(1-3)
    by (simp add: p_options_def con_request_def con_getresponse_def Let_def OK_def
        METHOD_NOT_ALLOWED_def NO_CONTENT_def split: sum.split)
  with flatten_features_not_dict [OF assms(4)] show ?thesis
    by auto
qed

text \<open>
  Claim C3 at a body that is a JSON document but no dictionary: the array \<^verbatim>\<open>[]\<close>.
  \<^verbatim>\<open>options.pop("features", [])\<close> raises \<^verbatim>\<open>TypeError\<close>, the probe raises, and so does the
  constructor.
\<close>

theorem options_json_array_fails:
  "ex_loads ''[]'' = Some (JList [])
   \<and> fst (p_options ex_loads (ex_backend JNull JNull [ex_response 200 (IsInt 2) [''[]'']]))
       = Inl TypeError
   \<and> Backend_init ex_loads (\<lambda>s. None) ''/images/ticket''
        (ex_con [ex_response 200 (IsInt 2) [''[]'']]) = Inl TypeError"
  by (simp add: Backend_init_def p_options_def con_request_def con_getresponse_def Let_def
      ex_backend_def ex_con_def ex_response_def ex_loads_def res_read_def OK_def
      METHOD_NOT_ALLOWED_def NO_CONTENT_def)

subsection \<open>Calls keep the capabilities, the cache and the size\<close>

lemma keeps_refl: "keeps b b"
  by (simp add: keeps_def)

lemma keeps_trans: "keeps a b \<Longrightarrow> keeps b c \<Longrightarrow> keeps a c"
  by (simp add: keeps_def)

lemma keeps_con: "keeps b (b\<lparr>con := c\<rparr>)"
  by (simp add: keeps_def)

lemma keeps_position: "keeps b b' \<Longrightarrow> keeps b (b'\<lparr>position := p\<rparr>)"
  by (simp add: keeps_def)

lemma p_get_frame: "snd (p_get b len) = b\<lparr>con := con (snd (p_get b len))\<rparr>"
  by (simp add: p_get_def Let_def split: prod.split sum.split content_length.split)

lemma p_patch_frame: "snd (p_patch b msg) = b\<lparr>con := con (snd (p_patch b msg))\<rparr>"
  by (simp add: p_patch_def Let_def split: prod.split sum.split)

lemma p_get_extents_frame: "snd (p_get_extents loads b context) = b\<lparr>con := con (snd (p_get_extents loads b context))\<rparr>"
  by (simp add: p_get_extents_def Let_def split: prod.split sum.split option.split)

lemma p_emulate_head_frame: "snd (p_emulate_head b) = b\<lparr>con := con (snd (p_emulate_head b))\<rparr>"
  by (simp add: p_emulate_head_def Let_def split: prod.split sum.split content_length.split)

lemma keeps_readinto: "keeps b (snd (fst (readinto b buf)))"
proof -
  obtain c where "snd (p_get b (int (length buf))) = b\<lparr>con := c\<rparr>"
    using p_get_frame [of b "int (length buf)"] by blast
  then show ?thesis
    by (auto simp add: readinto_def Let_def keeps_def split: prod.split sum.split)
qed

lemma keeps_write: "keeps b (snd (write_m b buf))"
  by (simp add: write_m_def p_put_header_def Let_def keeps_def split: prod.split sum.split)

lemma keeps_zero: "keeps b (snd (zero_m b len))"
proof -
  obtain c where "snd (p_patch b (zero_msg b len)) = b\<lparr>con := c\<rparr>"
    using p_patch_frame [of b "zero_msg b len"] by blast
  then show ?thesis
    by (auto simp add: zero_m_def keeps_def split: prod.split sum.split)
qed

lemma keeps_flush: "keeps b (snd (flush b))"
proof -
  obtain c where "snd (p_patch b (JDict [(''op'', JStr ''flush'')])) = b\<lparr>con := c\<rparr>"
    using p_patch_frame [of b "JDict [(''op'', JStr ''flush'')]"] by blast
  then show ?thesis
    by (simp add: flush_def keeps_def)
qed

lemma keeps_extents_cached: "keeps b (snd (extents_cached loads b context))"
proof -
  obtain c where "snd (p_get_extents loads b context) = b\<lparr>con := c\<rparr>"
    using p_get_extents_frame [of loads b "context"] by blast
  then show ?thesis
    by (auto simp add: extents_cached_def keeps_def split: prod.split sum.split option.split)
qed

lemma keeps_size: "keeps b (snd (size_m loads b))"
proof (cases "size_field b")
  case (Some s)
  then show ?thesis by (simp add: size_m_def keeps_refl)
next
  case None
  show ?thesis
  proof (cases "truthy (can_extents b)")
    case True
    have k: "keeps b (snd (extents_cached loads b ''zero''))"
      by (rule keeps_extents_cached)
    obtain r b1 where e: "extents_cached loads b ''zero'' = (r, b1)"
      by (cases "extents_cached loads b ''zero''")
    with k have "keeps b b1" by simp
    moreover from this None have "keeps b (b1\<lparr>size_field := Some s\<rparr>)" for s
      by (simp add: keeps_def)
    ultimately show ?thesis using None True e
      by (cases r) (simp_all add: size_m_def split: sum.split)
  next
    case False
    obtain c where c: "snd (p_emulate_head b) = b\<lparr>con := c\<rparr>"
      using p_emulate_head_frame [of b] by blast
    obtain r b1 where e: "p_emulate_head b = (r, b1)"
      by (cases "p_emulate_head b")
    with c None False show ?thesis
      by (cases r) (simp_all add: size_m_def keeps_def)
  qed
qed

lemma keeps_extents: "keeps b (snd (extents loads b context))"
proof -
  have "keeps b (snd (size_m loads b))" by (rule keeps_size)
  moreover have "keeps b (snd (extents_cached loads b context))"
    by (rule keeps_extents_cached)
  ultimately show ?thesis
    by (auto simp add: extents_def keeps_refl split: prod.split sum.split)
qed

lemma keeps_seek: "keeps b (snd (seek loads b n how))"
proof -
  have "keeps b (snd (size_m loads b))" by (rule keeps_size)
  then show ?thesis
    by (auto simp add: seek_def keeps_refl keeps_position split: prod.split sum.split)
qed

lemma keeps_step: "keeps b (step loads b c)"
  by (cases c)
     (simp_all add: keeps_readinto keeps_write keeps_zero keeps_flush keeps_extents
        keeps_seek keeps_size keeps_refl close_def keeps_con)

lemma keeps_run: "keeps b (run loads b cs)"
proof (induction cs arbitrary: b)
  case Nil
  show ?case by (simp add: run_def keeps_refl)
next
  case (Cons c cs)
  have "keeps b (step loads b c)" by (rule keeps_step)
  moreover have "keeps (step loads b c) (run loads (step loads b c) cs)"
    by (rule Cons.IH)
  ultimately show ?case
    using keeps_trans by (simp add: run_def)
qed

subsection \<open>The extent cache\<close>

lemma extents_supported:
  assumes "truthy (can_extents b)"
  shows "extents loads b ''zero'' = extents_cached loads b ''zero''"
  using assms by (simp add: extents_def)

lemma p_get_extents_sent:
  "sent (con (snd (p_get_extents loads b context))) = sent (con b) @ [extents_request b context]"
  by (simp add: p_get_extents_def con_request_def con_getresponse_def Let_def
      split: list.split option.split sum.split)

lemma extents_cached_first_sent:
  assumes "extents_field b context = None"
  shows "sent (con (snd (extents_cached loads b context))) =
           sent (con b) @ [extents_request b context]"
proof -
  obtain r b1 where e: "p_get_extents loads b context = (r, b1)"
    by (cases "p_get_extents loads b context")
  then have "sent (con b1) = sent (con b) @ [extents_request b context]"
    using p_get_extents_sent [of loads b "context"] by simp
  with assms e show ?thesis
    by (cases r) (simp_all add: extents_cached_def)
qed

lemma extents_cached_stored:
  assumes "extents_cached loads b context = (Inr xs, b1)"
  shows "extents_field b1 context = Some xs"
proof (cases "extents_field b context")
  case (Some ys)
  with assms show ?thesis by (simp add: extents_cached_def)
next
  case None
  obtain r b2 where e: "p_get_extents loads b context = (r, b2)"
    by (cases "p_get_extents loads b context")
  with assms None show ?thesis
    by (cases r) (auto simp add: extents_cached_def)
qed

lemma extents_cached_replay:
  assumes "extents_field b context = Some xs"
  shows "extents_cached loads b context = (Inr xs, b)"
  using assms by (simp add: extents_cached_def)

text \<open>
  Claim C6. With extent support and a context \<^verbatim>\<open>"zero"\<close> or \<^verbatim>\<open>"dirty"\<close> not fetched yet,
  \<open>extents loads b context\<close> sends exactly one request, the extents query of that
  context. When it returns a list, every later call for the same context, after any
  sequence of calls on the backend, returns the same list and leaves the backend as
  it was: nothing is sent.
\<close>

theorem extents_fetched_once:
  assumes "truthy (can_extents b)"
    and "context = ''zero'' \<or> context = ''dirty''"
    and "extents_field b context = None"
  shows "sent (con (snd (extents loads b context))) = sent (con b) @ [extents_request b context]
       \<and> (\<forall>xs b1 cs. extents loads b context = (Inr xs, b1) \<longrightarrow>
             extents loads (run loads b1 cs) context = (Inr xs, run loads b1 cs))"
proof (intro conjI allI impI)
  from assms(1,2) have eq: "extents loads b context = extents_cached loads b context"
    by (auto simp add: extents_def)
  show "sent (con (snd (extents loads b context))) = sent (con b) @ [extents_request b context]"
    using extents_cached_first_sent [OF assms(3), of loads] eq by simp
  fix xs b1 cs
  assume first: "extents loads b context = (Inr xs, b1)"
  let ?b2 = "run loads b1 cs"
  from first eq have "extents_field b1 context = Some xs"
    using extents_cached_stored by simp
  moreover have k1: "keeps b b1"
    using keeps_extents [of b loads "context"] first by simp
  moreover have k2: "keeps b1 ?b2"
    by (rule keeps_run)
  ultimately have c: "extents_field ?b2 context = Some xs" and t: "truthy (can_extents ?b2)"
    using assms(1) by (simp_all add: keeps_def)
  from t assms(2) have "extents loads ?b2 context = extents_cached loads ?b2 context"
    by (auto simp add: extents_def)
  with c show "extents loads ?b2 context = (Inr xs, ?b2)"
    by (simp add: extents_cached_replay)
qed

theorem extents_fetched_once_witness:
  "map path (sent (con (snd (extents ex_loads
       (ex_backend (JBool True) (JBool False) [ex_extents_response]) ''zero'')))) =
     [''/images/ticket/extents?context=zero'']
   \<and> extents ex_loads
       (run ex_loads
          (snd (extents ex_loads
             (ex_backend (JBool True) (JBool False) [ex_extents_response]) ''zero''))
          [Seek 0 2, Extents ''dirty''])
       ''zero'' =
     (Inr [ZeroExt (JInt 0) (JInt 4096) (JBool True) False],
      run ex_loads
          (snd (extents ex_loads
             (ex_backend (JBool True) (JBool False) [ex_extents_response]) ''zero''))
          [Seek 0 2, Extents ''dirty''])"
proof -
  let ?b = "ex_backend (JBool True) (JBool False) [ex_extents_response]"
  let ?xs = "[ZeroExt (JInt 0) (JInt 4096) (JBool True) False]"
  have h1: "truthy (can_extents ?b)"
    by (simp add: ex_backend_def)
  have h2: "''zero'' = ''zero'' \<or> ''zero'' = ''dirty''"
    by simp
  have h3: "extents_field ?b ''zero'' = None"
    by (simp add: ex_backend_def)
  have "fst (extents ex_loads ?b ''zero'') = Inr ?xs"
    by (simp add: extents_def extents_cached_def p_get_extents_def extents_request_def
        con_request_def con_getresponse_def res_read_def Let_def ZeroExtent_def
        ex_backend_def ex_con_def ex_response_def ex_extents_response_def ex_loads_def
        OK_def NOT_FOUND_def)
  then have first: "extents ex_loads ?b ''zero'' = (Inr ?xs, snd (extents ex_loads ?b ''zero''))"
    by (simp add: prod_eq_iff)
  have p: "path (extents_request ?b ''zero'') = ''/images/ticket/extents?context=zero''"
    by (simp add: extents_request_def ex_backend_def)
  have s: "sent (con ?b) = []"
    by (simp add: ex_backend_def ex_con_def)
  from extents_fetched_once [OF h1 h2 h3, of ex_loads] first p s show ?thesis
    by simp
qed

subsection \<open>The position\<close>

lemma p_options_frame: "snd (p_options loads b) = b\<lparr>con := con (snd (p_options loads b))\<rparr>"
  by (simp add: p_options_def Let_def split: prod.split sum.split option.split)

lemma p_optimize_connection_frame:
  "snd (p_optimize_connection uc b us) = b\<lparr>con := con (snd (p_optimize_connection uc b us))\<rparr>"
  by (simp add: p_optimize_connection_def Let_def split: sum.split option.split)

lemma Backend_init_position:
  assumes "Backend_init loads unix_connect url c0 = Inr b0"
  shows "position b0 = 0"
proof -
  let ?b = "\<lparr>url_path = url, position = 0, size_field = None, extents_field = Map.empty,
             can_extents = JNull, can_zero = JNull, can_flush = JNull, con = c0\<rparr>"
  obtain r b1 where o: "p_options loads ?b = (r, b1)"
    by (cases "p_options loads ?b")
  then have p1: "position b1 = 0"
    using p_options_frame [of loads ?b] by (cases b1) simp
  show ?thesis
  proof (cases r)
    case (Inl e)
    with assms o show ?thesis by (simp add: Backend_init_def)
  next
    case (Inr d)
    let ?b2 = "b1\<lparr>can_extents := dict_get d ''extents'' (JBool False),
                   can_zero := dict_get d ''zero'' (JBool False),
                   can_flush := dict_get d ''flush'' (JBool False)\<rparr>"
    obtain r3 b3 where q: "p_optimize_connection unix_connect ?b2
        (dict_get d ''unix_socket'' JNull) = (r3, b3)"
      by (cases "p_optimize_connection unix_connect ?b2 (dict_get d ''unix_socket'' JNull)")
    then have "position b3 = position ?b2"
      using p_optimize_connection_frame
        [of unix_connect ?b2 "dict_get d ''unix_socket'' JNull"]
      by (cases b3) simp
    with p1 have "position b3 = 0" by simp
    with assms o Inr q show ?thesis
      by (cases r3) (simp_all add: Backend_init_def)
  qed
qed

lemma readinto_position:
  assumes "readinto b buf = ((Inr r, b'), buf')"
  shows "position b' = position b + int (length buf)"
proof -
  obtain g b1 where e: "p_get b (int (length buf)) = (g, b1)"
    by (cases "p_get b (int (length buf))")
  then have "position b1 = position b"
    using p_get_frame [of b "int (length buf)"] by (cases b1) simp
  with assms e show ?thesis
    by (auto simp add: readinto_def Let_def split: sum.splits prod.splits)
qed

lemma write_position:
  assumes "write_m b buf = (Inr r, b')"
  shows "position b' = position b + int (length buf)"
  using assms
  by (auto simp add: write_m_def p_put_header_def Let_def split: sum.splits prod.splits if_splits)

lemma zero_position:
  assumes "zero_m b len = (Inr r, b')"
  shows "position b' = position b + len"
proof -
  obtain g b1 where e: "p_patch b (zero_msg b len) = (g, b1)"
    by (cases "p_patch b (zero_msg b len)")
  then have "position b1 = position b"
    using p_patch_frame [of b "zero_msg b len"] by (cases b1) simp
  with assms e show ?thesis
    by (auto simp add: zero_m_def split: sum.splits)
qed

lemma seek_position:
  assumes "seek loads b n how = (Inr r, b')"
  shows "position b' = r \<and>
         (how = SEEK_SET \<longrightarrow> r = n) \<and>
         (how = SEEK_CUR \<longrightarrow> r = position b + n) \<and>
         (how = SEEK_END \<longrightarrow>
            (\<exists>s i. fst (size_m loads b) = Inr s \<and> as_int s = Some i \<and> r = i + n)) \<and>
         (how \<noteq> SEEK_SET \<and> how \<noteq> SEEK_CUR \<and> how \<noteq> SEEK_END \<longrightarrow> r = position b)"
  using assms
  by (auto simp add: seek_def py_add_int_def SEEK_SET_def SEEK_CUR_def SEEK_END_def
      split: if_splits sum.splits prod.splits option.splits)

text \<open>
  Claim C8, amended. The position is 0 when the backend opens. From a position that is
  not negative, a completed \<open>readinto\<close> or \<open>write_m\<close> leaves it not negative, and so
  does a completed \<open>zero_m\<close> of a length that is not negative. A completed \<open>seek\<close>
  sets the position to the value it returns: \<open>n\<close> for \<open>SEEK_SET\<close>, the position plus
  \<open>n\<close> for \<open>SEEK_CUR\<close>, the size plus \<open>n\<close> for \<open>SEEK_END\<close>, the old position for any
  other whence. Nothing checks the range, so the new position is not negative exactly
  when that value is not.
\<close>

theorem position_nonnegative:
  assumes "0 \<le> position b"
  shows "(\<forall>b0. Backend_init loads unix_connect url c0 = Inr b0 \<longrightarrow> position b0 = 0)
       \<and> (\<forall>r b' buf'. readinto b buf = ((Inr r, b'), buf') \<longrightarrow> 0 \<le> position b')
       \<and> (\<forall>r b'. write_m b buf = (Inr r, b') \<longrightarrow> 0 \<le> position b')
       \<and> (\<forall>r b'. 0 \<le> len \<and> zero_m b len = (Inr r, b') \<longrightarrow> 0 \<le> position b')
       \<and> (\<forall>r b'. seek loads b n how = (Inr r, b') \<longrightarrow>
             position b' = r \<and>
             (how = SEEK_SET \<longrightarrow> r = n) \<and>
             (how = SEEK_CUR \<longrightarrow> r = position b + n) \<and>
             (how = SEEK_END \<longrightarrow>
                (\<exists>s i. fst (size_m loads b) = Inr s \<and> as_int s = Some i \<and> r = i + n)) \<and>
             (how \<noteq> SEEK_SET \<and> how \<noteq> SEEK_CUR \<and> how \<noteq> SEEK_END \<longrightarrow> r = position b))"
proof (intro conjI allI impI)
  fix b0 assume "Backend_init loads unix_connect url c0 = Inr b0"
  then show "position b0 = 0" by (rule Backend_init_position)
next
  fix r b' buf' assume "readinto b buf = ((Inr r, b'), buf')"
  then have "position b' = position b + int (length buf)" by (rule readinto_position)
  with assms show "0 \<le> position b'" by simp
next
  fix r b' assume "write_m b buf = (Inr r, b')"
  then have "position b' = position b + int (length buf)" by (rule write_position)
  with assms show "0 \<le> position b'" by simp
next
  fix r b' assume "0 \<le> len \<and> zero_m b len = (Inr r, b')"
  then have "position b' = position b + len" and "0 \<le> len"
    using zero_position by blast+
  with assms show "0 \<le> position b'" by simp
next
  fix r b' assume s: "seek loads b n how = (Inr r, b')"
  note p = seek_position [OF s]
  show "position b' = r" using p by blast
  { assume "how = SEEK_SET" then show "r = n" using p by blast }
  { assume "how = SEEK_CUR" then show "r = position b + n" using p by blast }
  { assume "how = SEEK_END"
    then show "\<exists>s i. fst (size_m loads b) = Inr s \<and> as_int s = Some i \<and> r = i + n"
      using p by blast }
  { assume "how \<noteq> SEEK_SET \<and> how \<noteq> SEEK_CUR \<and> how \<noteq> SEEK_END"
    then show "r = position b" using p by blast }
qed

theorem position_nonnegative_witness:
  "0 \<le> position ex_opened
   \<and> write_m ex_opened ''ab'' = (Inr 2, snd (write_m ex_opened ''ab''))
   \<and> 0 \<le> position (snd (write_m ex_opened ''ab''))
   \<and> seek (\<lambda>s. None) ex_opened 10 SEEK_SET = (Inr 10, ex_opened\<lparr>position := 10\<rparr>)
   \<and> position (ex_opened\<lparr>position := 10\<rparr>) = 10"
proof -
  have h: "0 \<le> position ex_opened"
    by (simp add: ex_opened_def ex_backend_def)
  have w: "write_m ex_opened ''ab'' = (Inr 2, snd (write_m ex_opened ''ab''))"
    by (simp add: write_m_def p_put_header_def con_send_request con_getresponse_def Let_def
        ex_opened_def ex_backend_def ex_con_def ex_response_def OK_def)
  have k: "seek (\<lambda>s. None) ex_opened 10 SEEK_SET = (Inr 10, ex_opened\<lparr>position := 10\<rparr>)"
    by (simp add: seek_def)
  from position_nonnegative [OF h, of "\<lambda>s. None" "\<lambda>s. None" "''/images/ticket''" "ex_con []"
      "''ab''" 0 10 SEEK_SET] w k h
  show ?thesis by simp
qed

text \<open>
  The claim as stated fails right after the open: \<open>seek\<close> to \<open>- 1\<close> and \<open>zero_m\<close> of
  \<open>- 5\<close> bytes both complete and leave a negative position.
\<close>

theorem position_nonnegative_counterexample:
  "Backend_init (\<lambda>s. None) (\<lambda>s. None) ''/images/ticket''
      (ex_con [ex_response 405 Absent [], ex_response 200 Absent []]) = Inr ex_opened
   \<and> position ex_opened = 0
   \<and> seek (\<lambda>s. None) ex_opened (- 1) SEEK_SET = (Inr (- 1), ex_opened\<lparr>position := - 1\<rparr>)
   \<and> position (snd (seek (\<lambda>s. None) ex_opened (- 1) SEEK_SET)) < 0
   \<and> fst (zero_m ex_opened (- 5)) = Inr (- 5)
   \<and> position (snd (zero_m ex_opened (- 5))) < 0"
  by (simp add: Backend_init_def p_options_def p_optimize_connection_def dict_get_def
      seek_def zero_m_def zero_msg_def p_patch_def con_request_def con_getresponse_def Let_def
      ex_opened_def ex_backend_def ex_con_def ex_response_def res_read_def
      OK_def METHOD_NOT_ALLOWED_def NO_CONTENT_def SEEK_SET_def)

end
